theory Spec2Isabelle
  imports Complex_Main "HOL-Library.Sublist"
begin

section \<open>Values of the server\<close>

text \<open>
  The server of \<^verbatim>\<open>examples/simple_mcp_server.py\<close> reads one JSON document per line,
  dispatches it and prints one JSON document per line. Requests, arguments and
  responses are Python values built from JSON: \<^verbatim>\<open>None\<close>, booleans, integers,
  floats, strings, lists and dictionaries. A dictionary is an association list;
  \<^verbatim>\<open>d.get(k, default)\<close> reads the first entry for \<open>k\<close> (a dictionary made by
  \<^verbatim>\<open>json.loads\<close> has one entry per key). A float is kept by its rational value;
  no code of the server computes with it.

  A Python string is a \<open>string\<close>: each character stands for the code point of
  the same number, so the model covers the texts whose code points are below 256.
\<close>

datatype json =
    JNull
  | JBool bool
  | JInt int
  | JFloat rat
  | JStr string
  | JArr "json list"
  | JObj "(string \<times> json) list"

text \<open>
  Exceptions are values. The transport loop tells \<^verbatim>\<open>json.JSONDecodeError\<close> from
  every other \<^verbatim>\<open>Exception\<close>; each carries the text of \<^verbatim>\<open>str(e)\<close>.
\<close>

datatype pyexn = JSONDecodeError string | OtherException string

fun str_exn :: "pyexn \<Rightarrow> string" where
  "str_exn (JSONDecodeError m) = m"
| "str_exn (OtherException m) = m"

subsection \<open>The host: interpreter, operating system, clock\<close>

text \<open>
  What the server asks of Python's library and of the operating system, and that is
  not written in the repository, is a parameter of the model: the \<open>host\<close>. The file
  system and the clock are state, the \<open>world\<close>, passed through every call.

  A path names a regular file (with its text as stored), a directory, or another kind
  of node (a device, a pipe). Paths are compared as strings: two spellings of one file
  are different keys.
\<close>

datatype node = RegFile string | Directory | OtherNode

record moment =
  isoformat :: string
  human_form :: string
  epoch_seconds :: int
  strftime :: "string \<Rightarrow> string + string"

record host =
  json_loads :: "string \<Rightarrow> pyexn + json"
  float_repr :: "rat \<Rightarrow> string"
  container_repr :: "json \<Rightarrow> string"
  exc_message :: "string \<Rightarrow> json \<Rightarrow> string"
  casemap_nonascii :: "string \<Rightarrow> string \<Rightarrow> string"
  eval_other :: "string \<Rightarrow> string + string"
  platform_system :: string
  platform_release :: string
  platform_machine :: string
  platform_processor :: string
  platform_node :: string
  cpu_count :: string
  getcwd :: "string + string"
  home_directory :: string
  clock :: "nat \<Rightarrow> moment"
  os_refuses :: "string \<Rightarrow> string \<Rightarrow> string option"
  os_listdir :: "(string \<Rightarrow> node option) \<Rightarrow> string \<Rightarrow> string list"
  linesep :: string
  stat_size :: "string \<Rightarrow> nat"
  fileop_nonstr :: "string \<Rightarrow> json \<Rightarrow> json \<Rightarrow> string + string"

record world =
  fs :: "string \<Rightarrow> node option"
  ticks :: nat

text \<open>
  The fields of \<open>host\<close>:
  \<^item> \<open>json_loads\<close>: \<^verbatim>\<open>json.loads\<close>, the parsed value or the exception raised;
  \<^item> \<open>float_repr\<close>, \<open>container_repr\<close>: \<^verbatim>\<open>str\<close> of a float, of a list or dictionary;
  \<^item> \<open>exc_message what v\<close>: the text of the exception that the interpreter raises when
    the operation \<open>what\<close> fails on the value \<open>v\<close> (a value of a type it does not
    accept, a directory opened for writing);
  \<^item> \<open>casemap_nonascii m t\<close>: \<^verbatim>\<open>t.upper()\<close>, \<^verbatim>\<open>t.lower()\<close>,
    \<^verbatim>\<open>t.capitalize()\<close>, \<^verbatim>\<open>t.title()\<close> of a text with a non-ASCII character;
  \<^item> \<open>eval_other\<close>: \<^verbatim>\<open>eval\<close> outside the integer fragment modelled below, as the
    exception text or as \<^verbatim>\<open>str\<close> of the result;
  \<^item> \<open>clock n\<close>: the \<open>n\<close>-th reading of \<^verbatim>\<open>datetime.now()\<close>, with its renderings;
  \<^item> \<open>os_refuses call path\<close>: the error text when the operating system refuses
    \<open>call\<close> on \<open>path\<close> (permissions, a missing parent directory, a bad name, an
    undecodable file);
  \<^item> \<open>os_listdir\<close>: the entries of a directory, given the nodes that exist;
  \<^item> \<open>linesep\<close>: \<^verbatim>\<open>os.linesep\<close>, written for each newline in text mode;
  \<^item> \<open>stat_size\<close>: the size that \<^verbatim>\<open>os.path.getsize\<close> reports for a directory or
    another node that is not a regular file;
  \<^item> \<open>fileop_nonstr\<close>: a file operation on a path that is not a string (an integer is
    a file descriptor), as the exception text or the result text.
\<close>

subsection \<open>Python's built-in operations on strings and values\<close>

definition LF :: char where "LF = CHR 0x0A"
definition CR :: char where "CR = CHR 0x0D"
definition QUOTE :: char where "QUOTE = CHR 0x27"
definition DQUOTE :: char where "DQUOTE = CHR 0x22"
definition BACKSLASH :: char where "BACKSLASH = CHR 0x5C"

definition code :: "char \<Rightarrow> nat" where
  "code c = of_char c"

definition is_space :: "char \<Rightarrow> bool" where
  \<comment> \<open>\<^verbatim>\<open>str.isspace\<close> and the class \<^verbatim>\<open>\s\<close> of \<^verbatim>\<open>re\<close>, below code point 256\<close>
  "is_space c = (code c \<in> set [9, 10, 11, 12, 13, 28, 29, 30, 31, 32, 133, 160])"

definition is_digit :: "char \<Rightarrow> bool" where
  "is_digit c = (48 \<le> code c \<and> code c \<le> 57)"

definition is_ascii :: "char \<Rightarrow> bool" where
  "is_ascii c = (code c < 128)"

definition is_upper :: "char \<Rightarrow> bool" where
  "is_upper c = (65 \<le> code c \<and> code c \<le> 90)"

definition is_lower :: "char \<Rightarrow> bool" where
  "is_lower c = (97 \<le> code c \<and> code c \<le> 122)"

definition ascii_upper :: "char \<Rightarrow> char" where
  "ascii_upper c = (if is_lower c then char_of (code c - 32) else c)"

definition ascii_lower :: "char \<Rightarrow> char" where
  "ascii_lower c = (if is_upper c then char_of (code c + 32) else c)"

definition py_strip :: "string \<Rightarrow> string" where
  "py_strip s = rev (dropWhile is_space (rev (dropWhile is_space s)))"

fun split_count :: "bool \<Rightarrow> string \<Rightarrow> nat" where
  \<comment> \<open>\<^verbatim>\<open>len(text.split())\<close>: the maximal runs of characters that are not whitespace\<close>
  "split_count in_word [] = 0"
| "split_count in_word (c # cs) =
     (if is_space c then split_count False cs
      else (if in_word then 0 else 1) + split_count True cs)"

fun title_from :: "bool \<Rightarrow> string \<Rightarrow> string" where
  \<comment> \<open>\<^verbatim>\<open>str.title\<close> on ASCII: a letter after a letter is lowered, any other is raised\<close>
  "title_from previous_is_cased [] = []"
| "title_from previous_is_cased (c # cs) =
     (if previous_is_cased then ascii_lower c else ascii_upper c)
       # title_from (is_upper c \<or> is_lower c) cs"

definition str_upper :: "host \<Rightarrow> string \<Rightarrow> string" where
  "str_upper h t = (if list_all is_ascii t then map ascii_upper t else casemap_nonascii h ''upper'' t)"

definition str_lower :: "host \<Rightarrow> string \<Rightarrow> string" where
  "str_lower h t = (if list_all is_ascii t then map ascii_lower t else casemap_nonascii h ''lower'' t)"

definition str_capitalize :: "host \<Rightarrow> string \<Rightarrow> string" where
  "str_capitalize h t =
     (if list_all is_ascii t
      then (case t of [] \<Rightarrow> [] | c # cs \<Rightarrow> ascii_upper c # map ascii_lower cs)
      else casemap_nonascii h ''capitalize'' t)"

definition str_title :: "host \<Rightarrow> string \<Rightarrow> string" where
  "str_title h t = (if list_all is_ascii t then title_from False t else casemap_nonascii h ''title'' t)"

definition digit_char :: "nat \<Rightarrow> char" where
  "digit_char d = ''0123456789'' ! d"

fun str_nat :: "nat \<Rightarrow> string" where
  \<comment> \<open>\<^verbatim>\<open>str(n)\<close> of an integer that is not negative: its decimal digits\<close>
  "str_nat n = (if n < 10 then [digit_char n] else str_nat (n div 10) @ [digit_char (n mod 10)])"

declare str_nat.simps [simp del]

definition str_int :: "int \<Rightarrow> string" where
  "str_int i = (if i < 0 then CHR ''-'' # str_nat (nat (- i)) else str_nat (nat i))"

fun join :: "string \<Rightarrow> string list \<Rightarrow> string" where
  \<comment> \<open>\<^verbatim>\<open>sep.join(items)\<close>\<close>
  "join sep [] = []"
| "join sep [x] = x"
| "join sep (x # y # ys) = x @ sep @ join sep (y # ys)"

fun type_name :: "json \<Rightarrow> string" where
  "type_name JNull = ''NoneType''"
| "type_name (JBool b) = ''bool''"
| "type_name (JInt i) = ''int''"
| "type_name (JFloat r) = ''float''"
| "type_name (JStr s) = ''str''"
| "type_name (JArr xs) = ''list''"
| "type_name (JObj d) = ''dict''"

fun py_str :: "host \<Rightarrow> json \<Rightarrow> string" where
  \<comment> \<open>\<^verbatim>\<open>str(v)\<close>, as an f-string renders a value\<close>
  "py_str h JNull = ''None''"
| "py_str h (JBool b) = (if b then ''True'' else ''False'')"
| "py_str h (JInt i) = str_int i"
| "py_str h (JFloat r) = float_repr h r"
| "py_str h (JStr s) = s"
| "py_str h (JArr xs) = container_repr h (JArr xs)"
| "py_str h (JObj d) = container_repr h (JObj d)"

fun truthy :: "json \<Rightarrow> bool" where
  "truthy JNull = False"
| "truthy (JBool b) = b"
| "truthy (JInt i) = (i \<noteq> 0)"
| "truthy (JFloat r) = (r \<noteq> 0)"
| "truthy (JStr s) = (s \<noteq> [])"
| "truthy (JArr xs) = (xs \<noteq> [])"
| "truthy (JObj d) = (d \<noteq> [])"

definition dict_get :: "(string \<times> json) list \<Rightarrow> string \<Rightarrow> json \<Rightarrow> json" where
  "dict_get d k dflt = (case map_of d k of Some v \<Rightarrow> v | None \<Rightarrow> dflt)"

fun py_get :: "host \<Rightarrow> json \<Rightarrow> string \<Rightarrow> json \<Rightarrow> pyexn + json" where
  \<comment> \<open>\<^verbatim>\<open>v.get(k, default)\<close>: only a dictionary has the method\<close>
  "py_get h (JObj d) k dflt = Inr (dict_get d k dflt)"
| "py_get h v k dflt = Inl (OtherException (exc_message h ''get'' v))"

subsection \<open>Responses and the registry of tools\<close>

text \<open>
  The source builds every tool response as one of two dictionary literals: a
  \<^verbatim>\<open>content\<close> list with one text item, alone or with \<^verbatim>\<open>"isError": True\<close>.
\<close>

definition text_item :: "json \<Rightarrow> json" where
  "text_item t = JObj [(''type'', JStr ''text''), (''text'', t)]"

definition text_result :: "json \<Rightarrow> json" where
  "text_result t = JObj [(''content'', JArr [text_item t])]"

definition error_result :: "string \<Rightarrow> json" where
  "error_result m = JObj [(''content'', JArr [text_item (JStr m)]), (''isError'', JBool True)]"

definition string_property :: "string \<Rightarrow> (string \<times> json) list \<Rightarrow> json" where
  "string_property description extra =
     JObj ([(''type'', JStr ''string''), (''description'', JStr description)] @ extra)"

definition descriptor :: "string \<Rightarrow> string \<Rightarrow> (string \<times> json) list \<Rightarrow> string list \<Rightarrow> json" where
  "descriptor name description properties required =
     JObj [(''name'', JStr name), (''description'', JStr description),
           (''inputSchema'', JObj [(''type'', JStr ''object''),
                                   (''properties'', JObj properties),
                                   (''required'', JArr (map JStr required))])]"

definition enum :: "string list \<Rightarrow> (string \<times> json) list" where
  "enum values = [(''enum'', JArr (map JStr values))]"

definition tools :: "(string \<times> json) list" where
  \<comment> \<open>\<^verbatim>\<open>self.tools\<close>, set once in \<^verbatim>\<open>__init__\<close>\<close>
  "tools =
    [(''text_transform'',
      descriptor ''text_transform''
        ''Transform text using various operations (uppercase, lowercase, reverse, etc.)''
        [(''text'', string_property ''The text to transform'' []),
         (''operation'', string_property ''The operation to perform''
            (enum [''uppercase'', ''lowercase'', ''reverse'', ''capitalize'', ''title'',
                   ''count_words'', ''count_chars'']))]
        [''text'', ''operation'']),
     (''calculate'',
      descriptor ''calculate'' ''Perform mathematical calculations''
        [(''expression'', string_property
            (''Mathematical expression to evaluate (e.g., '' @ [QUOTE] @ ''2 + 3 * 4'' @ [QUOTE] @ '')'') [])]
        [''expression'']),
     (''system_info'',
      descriptor ''system_info'' ''Get system information''
        [(''info_type'', string_property ''Type of system information to retrieve''
            (enum [''platform'', ''cpu'', ''memory'', ''disk'', ''network'', ''processes'', ''uptime'']))]
        [''info_type'']),
     (''file_operations'',
      descriptor ''file_operations'' ''Basic file operations (list, read, write)''
        [(''operation'', string_property ''File operation to perform''
            (enum [''list'', ''read'', ''write'', ''exists'', ''size''])),
         (''path'', string_property ''File or directory path'' []),
         (''content'', string_property ''Content to write (only for write operation)'' [])]
        [''operation'', ''path'']),
     (''current_time'',
      descriptor ''current_time'' ''Get current date and time information''
        [(''format'', string_property ''Time format (iso, human, timestamp, custom)''
            (enum [''iso'', ''human'', ''timestamp'', ''custom''])),
         (''timezone'', string_property ''Timezone (default: local)'' [(''default'', JStr ''local'')]),
         (''custom_format'', string_property ''Custom format string (for custom format type)'' [])]
        [''format''])]"

fun in_tools :: "host \<Rightarrow> json \<Rightarrow> pyexn + bool" where
  \<comment> \<open>\<^verbatim>\<open>tool_name in self.tools\<close>: a list or a dictionary cannot be hashed\<close>
  "in_tools h (JStr s) = Inr (s \<in> set (map fst tools))"
| "in_tools h (JArr xs) = Inl (OtherException (exc_message h ''hash'' (JArr xs)))"
| "in_tools h (JObj d) = Inl (OtherException (exc_message h ''hash'' (JObj d)))"
| "in_tools h v = Inr False"

section \<open>The tool handlers\<close>

subsection \<open>\<^verbatim>\<open>text_transform\<close>\<close>

fun py_upper :: "host \<Rightarrow> json \<Rightarrow> pyexn + json" where
  "py_upper h (JStr t) = Inr (JStr (str_upper h t))"
| "py_upper h v = Inl (OtherException (exc_message h ''upper'' v))"

fun py_lower :: "host \<Rightarrow> json \<Rightarrow> pyexn + json" where
  "py_lower h (JStr t) = Inr (JStr (str_lower h t))"
| "py_lower h v = Inl (OtherException (exc_message h ''lower'' v))"

fun py_reverse :: "host \<Rightarrow> json \<Rightarrow> pyexn + json" where
  \<comment> \<open>\<^verbatim>\<open>text[::-1]\<close>: a list is sliced as a string is\<close>
  "py_reverse h (JStr t) = Inr (JStr (rev t))"
| "py_reverse h (JArr xs) = Inr (JArr (rev xs))"
| "py_reverse h v = Inl (OtherException (exc_message h ''slice'' v))"

fun py_capitalize :: "host \<Rightarrow> json \<Rightarrow> pyexn + json" where
  "py_capitalize h (JStr t) = Inr (JStr (str_capitalize h t))"
| "py_capitalize h v = Inl (OtherException (exc_message h ''capitalize'' v))"

fun py_title :: "host \<Rightarrow> json \<Rightarrow> pyexn + json" where
  "py_title h (JStr t) = Inr (JStr (str_title h t))"
| "py_title h v = Inl (OtherException (exc_message h ''title'' v))"

fun count_words :: "host \<Rightarrow> json \<Rightarrow> pyexn + json" where
  "count_words h (JStr t) = Inr (JStr (''Word count: '' @ str_nat (split_count False t)))"
| "count_words h v = Inl (OtherException (exc_message h ''split'' v))"

fun count_chars :: "host \<Rightarrow> json \<Rightarrow> pyexn + json" where
  \<comment> \<open>\<^verbatim>\<open>len(text)\<close> is taken first; a list or a dictionary has a length but no \<^verbatim>\<open>replace\<close>\<close>
  "count_chars h (JStr t) =
     Inr (JStr (''Character count: '' @ str_nat (length t) @ '' (including spaces), ''
                @ str_nat (length (filter (\<lambda>c. c \<noteq> CHR '' '') t)) @ '' (excluding spaces)''))"
| "count_chars h (JArr xs) = Inl (OtherException (exc_message h ''replace'' (JArr xs)))"
| "count_chars h (JObj d) = Inl (OtherException (exc_message h ''replace'' (JObj d)))"
| "count_chars h v = Inl (OtherException (exc_message h ''len'' v))"

definition transform :: "host \<Rightarrow> json \<Rightarrow> json \<Rightarrow> (pyexn + json) option" where
  \<comment> \<open>the \<^verbatim>\<open>if\<close>/\<^verbatim>\<open>elif\<close> chain on \<^verbatim>\<open>operation\<close>; \<open>None\<close> is its \<^verbatim>\<open>else\<close>\<close>
  "transform h operation text =
     (if operation = JStr ''uppercase'' then Some (py_upper h text)
      else if operation = JStr ''lowercase'' then Some (py_lower h text)
      else if operation = JStr ''reverse'' then Some (py_reverse h text)
      else if operation = JStr ''capitalize'' then Some (py_capitalize h text)
      else if operation = JStr ''title'' then Some (py_title h text)
      else if operation = JStr ''count_words'' then Some (count_words h text)
      else if operation = JStr ''count_chars'' then Some (count_chars h text)
      else None)"

definition text_transform :: "host \<Rightarrow> json \<Rightarrow> pyexn + json" where
  "text_transform h arguments =
     (case py_get h arguments ''text'' (JStr []) of
        Inl e \<Rightarrow> Inl e
      | Inr text \<Rightarrow>
     (case py_get h arguments ''operation'' (JStr []) of
        Inl e \<Rightarrow> Inl e
      | Inr operation \<Rightarrow>
     (case transform h operation text of
        None \<Rightarrow> Inr (error_result (''Unknown operation: '' @ py_str h operation))
      | Some (Inl e) \<Rightarrow> Inl e
      | Some (Inr result) \<Rightarrow> Inr (text_result result))))"

subsection \<open>\<^verbatim>\<open>calculate\<close>\<close>

text \<open>
  The guard is \<^verbatim>\<open>re.match(r'^[0-9+\-*/().\s]+$', expression)\<close>: one or more characters of
  the class, then \<^verbatim>\<open>$\<close>, which matches at the end of the string and before a
  newline that ends it.
\<close>

definition in_class :: "char \<Rightarrow> bool" where
  "in_class c = (is_digit c \<or> c \<in> set ''+-*/().'' \<or> is_space c)"

definition at_dollar :: "string \<Rightarrow> bool" where
  "at_dollar rest = (rest = [] \<or> rest = [LF])"

fun after_plus :: "string \<Rightarrow> bool" where
  \<comment> \<open>after one character of the class: more of them, or the end\<close>
  "after_plus [] = True"
| "after_plus (c # cs) = ((in_class c \<and> after_plus cs) \<or> at_dollar (c # cs))"

definition re_match_expression :: "string \<Rightarrow> bool" where
  "re_match_expression s = (case s of [] \<Rightarrow> False | c # cs \<Rightarrow> in_class c \<and> after_plus cs)"

text \<open>
  \<^verbatim>\<open>eval\<close> is Python's evaluator. The model evaluates the integer fragment itself:
  decimal integer literals, the binary operators \<^verbatim>\<open>+ - *\<close>, the unary signs,
  parentheses and spaces, with Python's grammar (a unary sign binds tighter than
  \<^verbatim>\<open>*\<close>, \<^verbatim>\<open>*\<close> tighter than \<^verbatim>\<open>+\<close> and \<^verbatim>\<open>-\<close>, binary operators of one
  level associate to the left) and unbounded integers. Every other expression
  (a division, a float, a power, a syntax error) is left to \<open>eval_other\<close>.
  The interpreter's resource limits (nesting depth, digits of an integer) are not
  modelled.
\<close>

datatype token = NUM nat | PLUS | MINUS | STAR | LPAR | RPAR

definition numeral_ok :: "string \<Rightarrow> bool" where
  \<comment> \<open>a decimal literal has no leading zero, unless it is all zeros\<close>
  "numeral_ok ds = (take 1 ds \<noteq> ''0'' \<or> list_all (\<lambda>c. c = CHR ''0'') ds)"

definition nat_of_digits :: "string \<Rightarrow> nat" where
  "nat_of_digits ds = foldl (\<lambda>n c. 10 * n + (code c - 48)) 0 ds"

definition emit :: "string \<Rightarrow> token list \<Rightarrow> token list option" where
  "emit ds ts = (if ds = [] then Some ts
                 else if numeral_ok ds then Some (NUM (nat_of_digits ds) # ts) else None)"

definition symbol :: "char \<Rightarrow> string \<Rightarrow> token list option" where
  "symbol c cs =
     (if c = CHR '' '' then Some []
      else if c = CHR ''+'' then Some [PLUS]
      else if c = CHR ''-'' then Some [MINUS]
      else if c = CHR ''*'' then (if take 1 cs = ''*'' then None else Some [STAR])
      else if c = CHR ''('' then Some [LPAR]
      else if c = CHR '')'' then Some [RPAR]
      else None)"

fun lex :: "string \<Rightarrow> string \<Rightarrow> token list option" where
  \<comment> \<open>the digits read so far, the characters left\<close>
  "lex ds [] = emit ds []"
| "lex ds (c # cs) =
     (if is_digit c then lex (ds @ [c]) cs
      else (case symbol c cs of
              None \<Rightarrow> None
            | Some found \<Rightarrow> (case lex [] cs of None \<Rightarrow> None | Some ts \<Rightarrow> emit ds (found @ ts))))"

datatype operator = Add | Sub | Mul | Neg | Pos | Paren

fun apply_operator :: "operator \<Rightarrow> int list \<Rightarrow> int list option" where
  "apply_operator Add (b # a # vs) = Some ((a + b) # vs)"
| "apply_operator Sub (b # a # vs) = Some ((a - b) # vs)"
| "apply_operator Mul (b # a # vs) = Some ((a * b) # vs)"
| "apply_operator Neg (a # vs) = Some ((- a) # vs)"
| "apply_operator Pos (a # vs) = Some (a # vs)"
| "apply_operator _ _ = None"

fun reduce :: "(operator \<Rightarrow> bool) \<Rightarrow> operator list \<Rightarrow> int list \<Rightarrow> (operator list \<times> int list) option" where
  \<comment> \<open>apply the stacked operators that bind at least as tightly as the one coming\<close>
  "reduce tighter [] vs = Some ([], vs)"
| "reduce tighter (ope # os) vs =
     (if tighter ope
      then (case apply_operator ope vs of None \<Rightarrow> None | Some vs' \<Rightarrow> reduce tighter os vs')
      else Some (ope # os, vs))"

definition before_additive :: "operator \<Rightarrow> bool" where
  "before_additive ope = (ope \<noteq> Paren)"

definition before_multiplicative :: "operator \<Rightarrow> bool" where
  "before_multiplicative ope = (ope = Mul \<or> ope = Neg \<or> ope = Pos)"

fun shunt :: "token list \<Rightarrow> operator list \<Rightarrow> int list \<Rightarrow> bool \<Rightarrow> int option" where
  \<comment> \<open>operator stack, value stack, and whether an operand is expected next\<close>
  "shunt [] os vs expect =
     (if expect then None
      else (case reduce before_additive os vs of Some ([], [v]) \<Rightarrow> Some v | _ \<Rightarrow> None))"
| "shunt (NUM n # ts) os vs expect =
     (if expect then shunt ts os (int n # vs) False else None)"
| "shunt (PLUS # ts) os vs expect =
     (if expect then shunt ts (Pos # os) vs True
      else (case reduce before_additive os vs of
              None \<Rightarrow> None
            | Some (os', vs') \<Rightarrow> shunt ts (Add # os') vs' True))"
| "shunt (MINUS # ts) os vs expect =
     (if expect then shunt ts (Neg # os) vs True
      else (case reduce before_additive os vs of
              None \<Rightarrow> None
            | Some (os', vs') \<Rightarrow> shunt ts (Sub # os') vs' True))"
| "shunt (STAR # ts) os vs expect =
     (if expect then None
      else (case reduce before_multiplicative os vs of
              None \<Rightarrow> None
            | Some (os', vs') \<Rightarrow> shunt ts (Mul # os') vs' True))"
| "shunt (LPAR # ts) os vs expect =
     (if expect then shunt ts (Paren # os) vs True else None)"
| "shunt (RPAR # ts) os vs expect =
     (if expect then None
      else (case reduce before_additive os vs of
              Some (Paren # os', vs') \<Rightarrow> shunt ts os' vs' False
            | _ \<Rightarrow> None))"

definition eval_integer :: "string \<Rightarrow> int option" where
  "eval_integer s = (case lex [] s of None \<Rightarrow> None | Some ts \<Rightarrow> shunt ts [] [] True)"

definition py_eval :: "host \<Rightarrow> string \<Rightarrow> string + string" where
  \<comment> \<open>\<^verbatim>\<open>eval(expression)\<close>: the exception text, or \<^verbatim>\<open>str\<close> of the value\<close>
  "py_eval h s = (case eval_integer s of Some v \<Rightarrow> Inr (str_int v) | None \<Rightarrow> eval_other h s)"

definition invalid_expression :: string where
  "invalid_expression =
     ''Invalid expression: only numbers and basic operators (+, -, *, /, parentheses) are allowed''"

definition calculate :: "host \<Rightarrow> json \<Rightarrow> pyexn + json" where
  "calculate h arguments =
     (case py_get h arguments ''expression'' (JStr []) of
        Inl e \<Rightarrow> Inl e
      | Inr (JStr expression) \<Rightarrow>
          (if \<not> re_match_expression expression then Inr (error_result invalid_expression)
           else (case py_eval h expression of
                   Inr result \<Rightarrow> Inr (text_result (JStr (expression @ '' = '' @ result)))
                 | Inl m \<Rightarrow>
                     Inr (error_result (''Error calculating '' @ [QUOTE] @ expression @ [QUOTE]
                                        @ '': '' @ m))))
      | Inr v \<Rightarrow> Inl (OtherException (exc_message h ''re.match'' v)))"

subsection \<open>\<^verbatim>\<open>system_info\<close>\<close>

definition read_clock :: "host \<Rightarrow> world \<Rightarrow> moment \<times> world" where
  \<comment> \<open>\<^verbatim>\<open>datetime.now()\<close>: the next reading of the clock\<close>
  "read_clock h w = (clock h (ticks w), w\<lparr>ticks := Suc (ticks w)\<rparr>)"

definition system_info :: "host \<Rightarrow> world \<Rightarrow> json \<Rightarrow> pyexn + json \<times> world" where
  "system_info h w arguments =
     (case py_get h arguments ''info_type'' (JStr []) of
        Inl e \<Rightarrow> Inl e
      | Inr info_type \<Rightarrow>
          Inr (if info_type = JStr ''platform'' then
                 (text_result (JStr (''Platform: '' @ platform_system h @ '' '' @ platform_release h
                    @ [LF] @ ''Architecture: '' @ platform_machine h
                    @ [LF] @ ''Processor: '' @ platform_processor h)), w)
               else if info_type = JStr ''cpu'' then
                 (text_result (JStr (''CPU Count: '' @ cpu_count h
                    @ [LF] @ ''Processor: '' @ platform_processor h)), w)
               else if info_type = JStr ''memory'' then
                 (text_result (JStr ''Memory information requires psutil library''), w)
               else if info_type = JStr ''disk'' then
                 (case getcwd h of
                    Inl m \<Rightarrow> (error_result (''Error getting system info: '' @ m), w)
                  | Inr cwd \<Rightarrow>
                      (text_result (JStr (''Current directory: '' @ cwd
                         @ [LF] @ ''Home directory: '' @ home_directory h)), w))
               else if info_type = JStr ''network'' then
                 (text_result (JStr (''Hostname: '' @ platform_node h)), w)
               else if info_type = JStr ''processes'' then
                 (text_result (JStr ''Process information requires psutil library''), w)
               else if info_type = JStr ''uptime'' then
                 (case read_clock h w of
                    (now, w') \<Rightarrow> (text_result (JStr (''Python started at: '' @ isoformat now)), w'))
               else (error_result (''Unknown info type: '' @ py_str h info_type), w)))"

subsection \<open>\<^verbatim>\<open>file_operations\<close>\<close>

text \<open>
  Files are opened in text mode with UTF-8. Writing replaces each newline by the
  platform's line separator; reading turns \<^verbatim>\<open>\r\n\<close> and a lone \<^verbatim>\<open>\r\<close> into a
  newline (Python's universal newlines).
\<close>

definition to_disk :: "host \<Rightarrow> string \<Rightarrow> string" where
  "to_disk h content = concat (map (\<lambda>c. if c = LF then linesep h else [c]) content)"

fun universal_newlines :: "string \<Rightarrow> string" where
  "universal_newlines [] = []"
| "universal_newlines [c] = (if c = CR then [LF] else [c])"
| "universal_newlines (c # d # cs) =
     (if c = CR then (if d = LF then LF # universal_newlines cs else LF # universal_newlines (d # cs))
      else c # universal_newlines (d # cs))"

definition utf8_length :: "string \<Rightarrow> nat" where
  \<comment> \<open>bytes of the UTF-8 encoding: one below code point 128, two from there to 255\<close>
  "utf8_length s = sum_list (map (\<lambda>c. if is_ascii c then 1 else 2) s)"

definition file_result :: "string + string \<Rightarrow> json" where
  \<comment> \<open>the end of the \<^verbatim>\<open>try\<close> block: the text item, or the \<^verbatim>\<open>except\<close> branch\<close>
  "file_result r =
     (case r of
        Inl m \<Rightarrow> error_result (''Error with file operation: '' @ m)
      | Inr result \<Rightarrow> text_result (JStr result))"

definition list_directory :: "host \<Rightarrow> world \<Rightarrow> string \<Rightarrow> string + string" where
  "list_directory h w path =
     (if fs w path = Some Directory
      then (case os_refuses h ''listdir'' path of
              Some m \<Rightarrow> Inl m
            | None \<Rightarrow> Inr (''Contents of '' @ path @ '':'' @ [LF] @ join [LF] (os_listdir h (fs w) path)))
      else Inr (''Path '' @ path @ '' is not a directory''))"

definition read_file :: "host \<Rightarrow> world \<Rightarrow> string \<Rightarrow> string + string" where
  "read_file h w path =
     (case fs w path of
        Some (RegFile stored) \<Rightarrow>
          (case os_refuses h ''open_r'' path of
             Some m \<Rightarrow> Inl m
           | None \<Rightarrow> Inr (''Contents of '' @ path @ '':'' @ [LF] @ universal_newlines stored))
      | _ \<Rightarrow> Inr (''File '' @ path @ '' not found''))"

definition write_file :: "host \<Rightarrow> world \<Rightarrow> string \<Rightarrow> json \<Rightarrow> (string + string) \<times> world" where
  \<comment> \<open>\<^verbatim>\<open>open(path, 'w')\<close> creates or empties the file before \<^verbatim>\<open>f.write\<close> checks its argument\<close>
  "write_file h w path content =
     (case os_refuses h ''open_w'' path of
        Some m \<Rightarrow> (Inl m, w)
      | None \<Rightarrow>
          (case fs w path of
             Some Directory \<Rightarrow> (Inl (exc_message h ''open_w'' (JStr path)), w)
           | Some OtherNode \<Rightarrow>
               (case content of
                  JStr c \<Rightarrow> (Inr (''Successfully wrote to '' @ path), w)
                | v \<Rightarrow> (Inl (exc_message h ''write'' v), w))
           | _ \<Rightarrow>
               (case content of
                  JStr c \<Rightarrow> (Inr (''Successfully wrote to '' @ path),
                             w\<lparr>fs := (fs w)(path \<mapsto> RegFile (to_disk h c))\<rparr>)
                | v \<Rightarrow> (Inl (exc_message h ''write'' v),
                         w\<lparr>fs := (fs w)(path \<mapsto> RegFile [])\<rparr>))))"

definition path_exists :: "world \<Rightarrow> string \<Rightarrow> string + string" where
  "path_exists w path =
     Inr (''Path '' @ path @ '' '' @ (if fs w path \<noteq> None then ''exists'' else ''does not exist''))"

definition path_size :: "host \<Rightarrow> world \<Rightarrow> string \<Rightarrow> string + string" where
  "path_size h w path =
     (case fs w path of
        None \<Rightarrow> Inr (''Path '' @ path @ '' does not exist'')
      | Some (RegFile stored) \<Rightarrow>
          Inr (''Size of '' @ path @ '': '' @ str_nat (utf8_length stored) @ '' bytes'')
      | Some other \<Rightarrow>
          Inr (''Size of '' @ path @ '': '' @ str_nat (stat_size h path) @ '' bytes''))"

definition file_operation_names :: "string list" where
  "file_operation_names = [''list'', ''read'', ''write'', ''exists'', ''size'']"

definition file_operations :: "host \<Rightarrow> world \<Rightarrow> json \<Rightarrow> pyexn + json \<times> world" where
  "file_operations h w arguments =
     (case py_get h arguments ''operation'' (JStr []) of
        Inl e \<Rightarrow> Inl e
      | Inr operation \<Rightarrow>
     (case py_get h arguments ''path'' (JStr []) of
        Inl e \<Rightarrow> Inl e
      | Inr path_value \<Rightarrow>
     (case py_get h arguments ''content'' (JStr []) of
        Inl e \<Rightarrow> Inl e
      | Inr content \<Rightarrow>
          Inr (case path_value of
                 JStr path \<Rightarrow>
                   (if operation = JStr ''list'' then (file_result (list_directory h w path), w)
                    else if operation = JStr ''read'' then (file_result (read_file h w path), w)
                    else if operation = JStr ''write'' then
                      (case write_file h w path content of (r, w') \<Rightarrow> (file_result r, w'))
                    else if operation = JStr ''exists'' then (file_result (path_exists w path), w)
                    else if operation = JStr ''size'' then (file_result (path_size h w path), w)
                    else (error_result (''Unknown operation: '' @ py_str h operation), w))
               | v \<Rightarrow>
                   (if operation \<in> set (map JStr file_operation_names)
                    then (file_result (fileop_nonstr h (py_str h operation) v content), w)
                    else (error_result (''Unknown operation: '' @ py_str h operation), w))))))"

subsection \<open>\<^verbatim>\<open>current_time\<close>\<close>

definition custom_time :: "host \<Rightarrow> moment \<Rightarrow> json \<Rightarrow> string + string" where
  \<comment> \<open>the branch \<^verbatim>\<open>format_type == "custom"\<close>\<close>
  "custom_time h now custom_format =
     (if truthy custom_format
      then (case custom_format of
              JStr pattern \<Rightarrow> strftime now pattern
            | v \<Rightarrow> Inl (exc_message h ''strftime'' v))
      else Inr ''Custom format string required for custom format type'')"

definition time_result :: "string + string \<Rightarrow> json" where
  "time_result r =
     (case r of
        Inl m \<Rightarrow> error_result (''Error getting time: '' @ m)
      | Inr result \<Rightarrow> text_result (JStr (''Current time: '' @ result)))"

definition current_time :: "host \<Rightarrow> world \<Rightarrow> json \<Rightarrow> pyexn + json \<times> world" where
  "current_time h w arguments =
     (case py_get h arguments ''format'' (JStr ''iso'') of
        Inl e \<Rightarrow> Inl e
      | Inr format_type \<Rightarrow>
     (case py_get h arguments ''custom_format'' (JStr []) of
        Inl e \<Rightarrow> Inl e
      | Inr custom_format \<Rightarrow>
     (case read_clock h w of
        (now, w') \<Rightarrow>
          Inr (if format_type = JStr ''iso'' then (time_result (Inr (isoformat now)), w')
               else if format_type = JStr ''human'' then (time_result (Inr (human_form now)), w')
               else if format_type = JStr ''timestamp'' then
                 (time_result (Inr (str_int (epoch_seconds now))), w')
               else if format_type = JStr ''custom'' then
                 (time_result (custom_time h now custom_format), w')
               else (error_result (''Unknown format type: '' @ py_str h format_type), w')))))"

section \<open>The dispatcher\<close>

definition call_tool :: "host \<Rightarrow> world \<Rightarrow> json \<Rightarrow> json \<Rightarrow> json \<times> world" where
  \<comment> \<open>the \<^verbatim>\<open>try\<close> around the handlers turns what they raise into an error response\<close>
  "call_tool h w tool_name arguments =
     (case (if tool_name = JStr ''text_transform'' then map_sum id (\<lambda>r. (r, w)) (text_transform h arguments)
            else if tool_name = JStr ''calculate'' then map_sum id (\<lambda>r. (r, w)) (calculate h arguments)
            else if tool_name = JStr ''system_info'' then system_info h w arguments
            else if tool_name = JStr ''file_operations'' then file_operations h w arguments
            else if tool_name = JStr ''current_time'' then current_time h w arguments
            else Inr (error_result (''Tool not implemented: '' @ py_str h tool_name), w)) of
        Inl e \<Rightarrow>
          (error_result (''Error executing tool '' @ py_str h tool_name @ '': '' @ str_exn e), w)
      | Inr response \<Rightarrow> response)"

definition handle_request :: "host \<Rightarrow> world \<Rightarrow> json \<Rightarrow> pyexn + json \<times> world" where
  "handle_request h w request =
     (case py_get h request ''method'' JNull of
        Inl e \<Rightarrow> Inl e
      | Inr method \<Rightarrow>
     (case py_get h request ''params'' (JObj []) of
        Inl e \<Rightarrow> Inl e
      | Inr params \<Rightarrow>
          (if method = JStr ''tools/list'' then Inr (JObj [(''tools'', JArr (map snd tools))], w)
           else if method = JStr ''tools/call'' then
             (case py_get h params ''name'' JNull of
                Inl e \<Rightarrow> Inl e
              | Inr tool_name \<Rightarrow>
             (case py_get h params ''arguments'' (JObj []) of
                Inl e \<Rightarrow> Inl e
              | Inr arguments \<Rightarrow>
             (case in_tools h tool_name of
                Inl e \<Rightarrow> Inl e
              | Inr known \<Rightarrow>
                  (if known then Inr (call_tool h w tool_name arguments)
                   else Inr (error_result (''Unknown tool: '' @ py_str h tool_name), w)))))
           else Inr (error_result (''Unknown method: '' @ py_str h method), w))))"

section \<open>The transport loop\<close>

text \<open>
  \<^verbatim>\<open>json.dumps\<close> with its defaults: \<^verbatim>\<open>", "\<close> between items, \<^verbatim>\<open>": "\<close> after a key, and
  every character outside printable ASCII escaped.
\<close>

definition hex_digit :: "nat \<Rightarrow> char" where
  "hex_digit d = ''0123456789abcdef'' ! d"

definition escape_char :: "char \<Rightarrow> string" where
  "escape_char c =
     (if c = DQUOTE then [BACKSLASH, DQUOTE]
      else if c = BACKSLASH then [BACKSLASH, BACKSLASH]
      else if c = LF then [BACKSLASH, CHR ''n'']
      else if c = CR then [BACKSLASH, CHR ''r'']
      else if code c = 9 then [BACKSLASH, CHR ''t'']
      else if code c = 8 then [BACKSLASH, CHR ''b'']
      else if code c = 12 then [BACKSLASH, CHR ''f'']
      else if 32 \<le> code c \<and> code c \<le> 126 then [c]
      else [BACKSLASH, CHR ''u'', CHR ''0'', CHR ''0'', hex_digit (code c div 16), hex_digit (code c mod 16)])"

definition dumps_string :: "string \<Rightarrow> string" where
  "dumps_string s = [DQUOTE] @ concat (map escape_char s) @ [DQUOTE]"

fun json_dumps :: "host \<Rightarrow> json \<Rightarrow> string" where
  "json_dumps h JNull = ''null''"
| "json_dumps h (JBool b) = (if b then ''true'' else ''false'')"
| "json_dumps h (JInt i) = str_int i"
| "json_dumps h (JFloat r) = float_repr h r"
| "json_dumps h (JStr s) = dumps_string s"
| "json_dumps h (JArr xs) = ''['' @ join '', '' (map (json_dumps h) xs) @ '']''"
| "json_dumps h (JObj d) =
     ''{'' @ join '', '' (map (\<lambda>kv. dumps_string (fst kv) @ '': '' @ json_dumps h (snd kv)) d) @ ''}''"

definition on_exception :: "pyexn \<Rightarrow> json" where
  \<comment> \<open>the two \<^verbatim>\<open>except\<close> clauses of the loop\<close>
  "on_exception e =
     (case e of
        JSONDecodeError m \<Rightarrow> error_result ''Invalid JSON request''
      | OtherException m \<Rightarrow> error_result (''Server error: '' @ m))"

definition serve_line :: "host \<Rightarrow> world \<Rightarrow> string \<Rightarrow> string \<times> world" where
  \<comment> \<open>one turn of the loop after a line was read: the line printed, the world left\<close>
  "serve_line h w line =
     (case json_loads h (py_strip line) of
        Inl e \<Rightarrow> (json_dumps h (on_exception e), w)
      | Inr request \<Rightarrow>
          (case handle_request h w request of
             Inl e \<Rightarrow> (json_dumps h (on_exception e), w)
           | Inr (response, w') \<Rightarrow> (json_dumps h response, w')))"

fun run :: "host \<Rightarrow> world \<Rightarrow> string list \<Rightarrow> string list \<times> world" where
  \<comment> \<open>the lines that \<^verbatim>\<open>readline\<close> returns in turn; the empty string, or no more line, is the
      end of the stream\<close>
  "run h w [] = ([], w)"
| "run h w (line # rest) =
     (if line = [] then ([], w)
      else (case serve_line h w line of
              (out, w') \<Rightarrow> (case run h w' rest of (outs, w'') \<Rightarrow> (out # outs, w''))))"

section \<open>Reading a response\<close>

definition content_of :: "json \<Rightarrow> json list option" where
  \<comment> \<open>the list under \<^verbatim>\<open>content\<close>\<close>
  "content_of response =
     (case response of
        JObj d \<Rightarrow> (case map_of d ''content'' of Some (JArr items) \<Rightarrow> Some items | _ \<Rightarrow> None)
      | _ \<Rightarrow> None)"

definition is_error :: "json \<Rightarrow> bool" where
  \<comment> \<open>\<^verbatim>\<open>isError\<close> is present and true\<close>
  "is_error response =
     (case response of JObj d \<Rightarrow> map_of d ''isError'' = Some (JBool True) | _ \<Rightarrow> False)"

definition text_of :: "json \<Rightarrow> json option" where
  \<comment> \<open>the text of a response with a single text item\<close>
  "text_of response =
     (case content_of response of
        Some [JObj item] \<Rightarrow>
          (if map_of item ''type'' = Some (JStr ''text'') then map_of item ''text'' else None)
      | _ \<Rightarrow> None)"

definition uniform_response :: "json \<Rightarrow> bool" where
  \<comment> \<open>a dictionary with \<^verbatim>\<open>content\<close>, a list of text items that is not empty, and at most
      \<^verbatim>\<open>isError\<close>, a boolean, beside it\<close>
  "uniform_response response =
     (case response of
        JObj d \<Rightarrow>
          list_all (\<lambda>k. k = ''content'' \<or> k = ''isError'') (map fst d)
          \<and> (case map_of d ''content'' of
                Some (JArr items) \<Rightarrow>
                  items \<noteq> []
                  \<and> list_all (\<lambda>item. case item of
                                        JObj e \<Rightarrow> map_of e ''type'' = Some (JStr ''text'')
                                                  \<and> map_of e ''text'' \<noteq> None
                                      | _ \<Rightarrow> False) items
              | _ \<Rightarrow> False)
          \<and> (case map_of d ''isError'' of None \<Rightarrow> True | Some (JBool b) \<Rightarrow> True | Some _ \<Rightarrow> False)
      | _ \<Rightarrow> False)"

definition descriptor_name :: "json \<Rightarrow> json option" where
  "descriptor_name d = (case d of JObj e \<Rightarrow> map_of e ''name'' | _ \<Rightarrow> None)"

definition required_arguments :: "json \<Rightarrow> json option" where
  \<comment> \<open>the \<^verbatim>\<open>required\<close> list of a descriptor's input schema\<close>
  "required_arguments d =
     (case d of
        JObj e \<Rightarrow> (case map_of e ''inputSchema'' of Some (JObj s) \<Rightarrow> map_of s ''required'' | _ \<Rightarrow> None)
      | _ \<Rightarrow> None)"

section \<open>Failure of an operation, as the specification lists it\<close>









definition answerable :: "(string \<times> json) list \<Rightarrow> bool" where
  \<comment> \<open>a call whose \<^verbatim>\<open>params\<close> is a dictionary (or absent) and whose tool name can be hashed\<close>
  "answerable request =
     (dict_get request ''method'' JNull = JStr ''tools/call'' \<longrightarrow>
        (case dict_get request ''params'' (JObj []) of
           JObj params \<Rightarrow>
             (case dict_get params ''name'' JNull of JArr xs \<Rightarrow> False | JObj d \<Rightarrow> False | _ \<Rightarrow> True)
         | _ \<Rightarrow> False))"

definition listed_character :: "char \<Rightarrow> bool" where
  \<comment> \<open>the characters the specification lists for an expression: digits, whitespace,
      parentheses and the four operators\<close>
  "listed_character c = (is_digit c \<or> is_space c \<or> c \<in> set ''()+-*/'')"

definition is_letter :: "char \<Rightarrow> bool" where
  "is_letter c = (is_upper c \<or> is_lower c)"


section \<open>A sample host and world\<close>

text \<open>
  A small host on which the model is run: it parses three request lines, evaluates one
  float expression, tells one time, and refuses no access. Its file system holds a
  directory \<^verbatim>\<open>/tmp\<close> with one file.
\<close>

definition sample_documents :: "(string \<times> json) list" where
  \<open>sample_documents =
    [(''{"method": "tools/list"}'', JObj [(''method'', JStr ''tools/list'')]),
     (''{"method": "tools/call", "params": []}'',
        JObj [(''method'', JStr ''tools/call''), (''params'', JArr [])]),
     (''{"method": "tools/call", "params": {"name": "calculate", "arguments": {"expression": "2 + 3 * 4"}}}'',
        JObj [(''method'', JStr ''tools/call''),
              (''params'', JObj [(''name'', JStr ''calculate''),
                                 (''arguments'', JObj [(''expression'', JStr ''2 + 3 * 4'')])])])]\<close>

definition sample_moment :: moment where
  "sample_moment =
     \<lparr>isoformat = ''2026-11-04T14:23:05.250000'',
      human_form = ''Wednesday, November 04, 2026 at 02:23 PM'',
      epoch_seconds = 1793802185,
      strftime = (\<lambda>pattern. if pattern = ''%Y'' then Inr ''2026''
                            else if CHR ''%'' \<in> set pattern then Inl ''Invalid format string''
                            else Inr pattern)\<rparr>"

definition sample_host :: host where
  "sample_host =
     \<lparr>json_loads = (\<lambda>s. case map_of sample_documents s of
                           Some v \<Rightarrow> Inr v
                         | None \<Rightarrow> Inl (JSONDecodeError ''Expecting value: line 1 column 1 (char 0)'')),
      float_repr = (\<lambda>r. ''0.0''),
      container_repr = (\<lambda>v. if v = JArr [] then ''[]'' else ''{}''),
      exc_message = (\<lambda>what v.
         if what = ''open_w'' then ''[Errno 21] Is a directory: '' @ [QUOTE] @ ''/tmp'' @ [QUOTE]
         else if what = ''hash'' then ''unhashable type: '' @ [QUOTE] @ type_name v @ [QUOTE]
         else [QUOTE] @ type_name v @ [QUOTE] @ '' object has no attribute '' @ [QUOTE] @ what @ [QUOTE]),
      casemap_nonascii = (\<lambda>method t. t),
      eval_other = (\<lambda>s. if s = ''1.5'' then Inr ''1.5'' else Inl ''invalid syntax (<string>, line 1)''),
      platform_system = ''Linux'',
      platform_release = ''6.1.0'',
      platform_machine = ''x86_64'',
      platform_processor = '''',
      platform_node = ''localhost'',
      cpu_count = ''4'',
      getcwd = Inr ''/tmp'',
      home_directory = ''/root'',
      clock = (\<lambda>n. sample_moment),
      os_refuses = (\<lambda>call path. if path = [] then Some (''[Errno 2] No such file or directory: '' @ [QUOTE, QUOTE]) else None),
      os_listdir = (\<lambda>nodes path. [''notes.txt'']),
      linesep = [LF],
      stat_size = (\<lambda>path. 4096),
      fileop_nonstr = (\<lambda>operation path content. Inl ''expected str, bytes or os.PathLike object'')\<rparr>"

definition sample_world :: world where
  "sample_world =
     \<lparr>fs = [''/tmp'' \<mapsto> Directory, ''/tmp/notes.txt'' \<mapsto> RegFile ''hello''], ticks = 0\<rparr>"

section \<open>Facts about responses, the pattern and the evaluator\<close>

lemma is_error_text_result: "is_error (text_result t) = False"
  by (simp add: is_error_def text_result_def)

lemma is_error_error_result: "is_error (error_result m) = True"
  by (simp add: is_error_def error_result_def)



lemma content_of_text_result: "content_of (text_result t) = Some [text_item t]"
  by (simp add: content_of_def text_result_def)



lemma text_of_error_result: "text_of (error_result m) = Some (JStr m)"
  by (simp add: text_of_def content_of_def error_result_def text_item_def)

lemma in_class_LF: "in_class LF"
  by (simp add: in_class_def is_space_def LF_def code_def)

lemma after_plus_iff: "after_plus cs = list_all in_class cs"
  by (induction cs) (auto simp: at_dollar_def in_class_LF)

lemma re_match_expression_iff: "re_match_expression s = (s \<noteq> [] \<and> list_all in_class s)"
  by (cases s) (simp_all add: re_match_expression_def after_plus_iff)

lemma in_class_listed: "in_class c = (listed_character c \<or> c = CHR ''.'')"
  by (auto simp: in_class_def listed_character_def)

lemma letter_not_in_class: "is_letter c \<Longrightarrow> \<not> in_class c"
  by (auto simp: is_letter_def is_upper_def is_lower_def in_class_def is_digit_def is_space_def code_def)

subsection \<open>Decimal digits and the lexer\<close>

lemma code_digit_char: "d < 10 \<Longrightarrow> code (digit_char d) = 48 + d"
proof -
  assume "d < 10"
  then have "d \<in> {0, 1, 2, 3, 4, 5, 6, 7, 8, 9}" by auto
  then show ?thesis
    by (auto simp: digit_char_def code_def)
qed

lemma digit_char_zero: "d < 10 \<Longrightarrow> (digit_char d = CHR ''0'') = (d = 0)"
proof -
  assume "d < 10"
  then have "d \<in> {0, 1, 2, 3, 4, 5, 6, 7, 8, 9}" by auto
  then show ?thesis
    by (auto simp: digit_char_def)
qed

lemma str_nat_digits: "list_all is_digit (str_nat n)"
proof (induction n rule: str_nat.induct)
  case (1 n)
  show ?case
  proof (cases "n < 10")
    case True
    then show ?thesis
      by (subst str_nat.simps) (simp add: is_digit_def code_digit_char)
  next
    case False
    then have "list_all is_digit (str_nat (n div 10))" using 1 by simp
    moreover have "is_digit (digit_char (n mod 10))"
      by (simp add: is_digit_def code_digit_char)
    ultimately show ?thesis using False
      by (subst str_nat.simps) simp
  qed
qed

lemma nat_of_digits_snoc: "nat_of_digits (ds @ [c]) = 10 * nat_of_digits ds + (code c - 48)"
  by (simp add: nat_of_digits_def)

lemma nat_of_digits_str_nat: "nat_of_digits (str_nat n) = n"
proof (induction n rule: str_nat.induct)
  case (1 n)
  show ?case
  proof (cases "n < 10")
    case True
    then show ?thesis
      by (subst str_nat.simps) (simp add: nat_of_digits_def code_digit_char)
  next
    case False
    then have "nat_of_digits (str_nat (n div 10)) = n div 10" using 1 by simp
    then show ?thesis using False
      by (subst str_nat.simps) (simp add: nat_of_digits_snoc code_digit_char)
  qed
qed

lemma str_nat_not_empty: "str_nat n \<noteq> []"
  by (subst str_nat.simps) simp

lemma str_nat_leading: "0 < n \<Longrightarrow> hd (str_nat n) \<noteq> CHR ''0''"
proof (induction n rule: str_nat.induct)
  case (1 n)
  show ?case
  proof (cases "n < 10")
    case True
    with 1(2) show ?thesis
      by (subst str_nat.simps) (simp add: digit_char_zero)
  next
    case False
    then have "0 < n div 10" by simp
    with 1(1) False have "hd (str_nat (n div 10)) \<noteq> CHR ''0''" by simp
    then show ?thesis using False
      by (subst str_nat.simps) (simp add: str_nat_not_empty)
  qed
qed

lemma str_nat_zero: "str_nat 0 = ''0''"
  by (simp add: str_nat.simps digit_char_def)

lemma numeral_ok_str_nat: "numeral_ok (str_nat n)"
proof (cases "n = 0")
  case True
  then show ?thesis by (simp add: str_nat_zero numeral_ok_def)
next
  case False
  then have "hd (str_nat n) \<noteq> CHR ''0''" by (simp add: str_nat_leading)
  moreover have "take 1 (str_nat n) = [hd (str_nat n)]"
    using str_nat_not_empty [of n] by (cases "str_nat n") simp_all
  ultimately show ?thesis by (simp add: numeral_ok_def)
qed

lemma emit_str_nat: "emit (str_nat n) ts = Some (NUM n # ts)"
  by (simp add: emit_def str_nat_not_empty numeral_ok_str_nat nat_of_digits_str_nat)

lemma emit_nothing: "emit [] ts = Some ts"
  by (simp add: emit_def)

lemma lex_digits: "list_all is_digit xs \<Longrightarrow> lex ds (xs @ rest) = lex (ds @ xs) rest"
  by (induction xs arbitrary: ds) simp_all

lemma lex_str_nat: "lex [] (str_nat n @ rest) = lex (str_nat n) rest"
  using lex_digits [OF str_nat_digits, of "[]" n rest] by simp

lemma lex_str_nat_end: "lex [] (str_nat n) = Some [NUM n]"
  using lex_str_nat [of n "[]"] by (simp add: emit_str_nat)

lemma lex_space: "lex ds (CHR '' '' # cs) = (case lex [] cs of None \<Rightarrow> None | Some ts \<Rightarrow> emit ds ts)"
  by (simp add: is_digit_def code_def symbol_def split: option.split)

lemma lex_plus: "lex ds (CHR ''+'' # cs) = (case lex [] cs of None \<Rightarrow> None | Some ts \<Rightarrow> emit ds (PLUS # ts))"
  by (simp add: is_digit_def code_def symbol_def split: option.split)

lemma lex_minus: "lex ds (CHR ''-'' # cs) = (case lex [] cs of None \<Rightarrow> None | Some ts \<Rightarrow> emit ds (MINUS # ts))"
  by (simp add: is_digit_def code_def symbol_def split: option.split)

lemma lex_star_space:
  "lex ds (CHR ''*'' # CHR '' '' # cs)
     = (case lex [] (CHR '' '' # cs) of None \<Rightarrow> None | Some ts \<Rightarrow> emit ds (STAR # ts))"
  by (simp add: is_digit_def code_def symbol_def split: option.split)

lemmas lex_steps = lex_str_nat lex_str_nat_end lex_space lex_plus lex_minus lex_star_space
  emit_str_nat emit_nothing

lemma lex_sum_product:
  "lex [] (str_nat a @ '' + '' @ str_nat b @ '' * '' @ str_nat c) = Some [NUM a, PLUS, NUM b, STAR, NUM c]"
  by (simp add: lex_steps del: lex.simps)

lemma lex_product_sum:
  "lex [] (str_nat a @ '' * '' @ str_nat b @ '' + '' @ str_nat c) = Some [NUM a, STAR, NUM b, PLUS, NUM c]"
  by (simp add: lex_steps del: lex.simps)

lemma lex_difference_difference:
  "lex [] (str_nat a @ '' - '' @ str_nat b @ '' - '' @ str_nat c) = Some [NUM a, MINUS, NUM b, MINUS, NUM c]"
  by (simp add: lex_steps del: lex.simps)

lemma lex_difference_sum:
  "lex [] (str_nat a @ '' - '' @ str_nat b @ '' + '' @ str_nat c) = Some [NUM a, MINUS, NUM b, PLUS, NUM c]"
  by (simp add: lex_steps del: lex.simps)

lemma precedence_and_associativity:
  "py_eval h (str_nat a @ '' + '' @ str_nat b @ '' * '' @ str_nat c) = Inr (str_int (int a + int b * int c))"
  "py_eval h (str_nat a @ '' * '' @ str_nat b @ '' + '' @ str_nat c) = Inr (str_int (int a * int b + int c))"
  "py_eval h (str_nat a @ '' - '' @ str_nat b @ '' - '' @ str_nat c) = Inr (str_int ((int a - int b) - int c))"
  "py_eval h (str_nat a @ '' - '' @ str_nat b @ '' + '' @ str_nat c) = Inr (str_int ((int a - int b) + int c))"
  by (simp_all only: py_eval_def eval_integer_def lex_sum_product lex_product_sum
        lex_difference_difference lex_difference_sum)
     (simp_all add: before_additive_def before_multiplicative_def)

lemma eval_integer_example: "eval_integer ''2 + 3 * 4'' = Some 14"
  by (simp add: eval_integer_def is_digit_def code_def symbol_def emit_def numeral_ok_def
      nat_of_digits_def before_additive_def before_multiplicative_def)

lemma eval_integer_float: "eval_integer ''1.5'' = None"
  by (simp add: eval_integer_def is_digit_def code_def symbol_def)

lemma str_int_14: "str_int 14 = ''14''"
  by (simp add: str_int_def str_nat.simps digit_char_def)

lemma calculate_example:
  "calculate h (JObj ((''expression'', JStr ''2 + 3 * 4'') # more_arguments))
     = Inr (text_result (JStr ''2 + 3 * 4 = 14''))"
proof -
  have "re_match_expression ''2 + 3 * 4''"
    by (simp add: re_match_expression_iff in_class_def is_digit_def is_space_def code_def)
  moreover have "py_eval h ''2 + 3 * 4'' = Inr ''14''"
    by (simp add: py_eval_def eval_integer_example str_int_14)
  ultimately show ?thesis
    by (simp add: calculate_def dict_get_def)
qed

subsection \<open>Case mapping on ASCII\<close>

lemma code_char_of: "n < 256 \<Longrightarrow> code (char_of n) = n"
  by (simp add: code_def)

lemma char_of_code: "char_of (code c) = c"
  by (simp add: code_def)

lemma lower_upper_char:
  assumes "ascii_lower c = c"
  shows "ascii_lower (ascii_upper c) = c"
proof (cases "is_lower c")
  case True
  then have range: "97 \<le> code c" "code c \<le> 122"
    by (simp_all add: is_lower_def)
  then have up: "code (char_of (code c - 32)) = code c - 32"
    by (simp add: code_char_of)
  with range have "is_upper (char_of (code c - 32))"
    unfolding is_upper_def by linarith
  with True up range show ?thesis
    by (simp add: ascii_upper_def ascii_lower_def char_of_code)
next
  case False
  with assms show ?thesis
    by (simp add: ascii_upper_def)
qed

lemma ascii_upper_is_ascii: "is_ascii c \<Longrightarrow> is_ascii (ascii_upper c)"
  by (auto simp: ascii_upper_def is_ascii_def is_lower_def code_char_of)

lemma lower_upper_text:
  assumes "list_all is_ascii t" and "str_lower h t = t"
  shows "list_all is_ascii (str_upper h t)" and "str_lower h (str_upper h t) = t"
proof -
  from assms have low: "map ascii_lower t = t"
    by (simp add: str_lower_def)
  have each: "ascii_lower c = c" if "c \<in> set t" for c
    using low that by (metis map_eq_conv map_ident)
  from assms(1) have up: "str_upper h t = map ascii_upper t"
    by (simp add: str_upper_def)
  show ascii: "list_all is_ascii (str_upper h t)"
    using assms(1) by (simp add: up list_all_iff ascii_upper_is_ascii)
  have "map ascii_lower (map ascii_upper t) = t"
    using each by (simp add: lower_upper_char map_idI)
  with ascii show "str_lower h (str_upper h t) = t"
    by (simp add: str_lower_def up)
qed

subsection \<open>The loop\<close>

lemma run_answers_every_line:
  "\<forall>l\<in>set ls. l \<noteq> [] \<Longrightarrow> length (fst (run h w ls)) = length ls"
  by (induction ls arbitrary: w) (simp_all add: case_prod_beta)

lemma run_step:
  "line \<noteq> [] \<Longrightarrow>
   run h w (line # rest)
     = (fst (serve_line h w line) # fst (run h (snd (serve_line h w line)) rest),
        snd (run h (snd (serve_line h w line)) rest))"
  by (simp add: case_prod_beta)

lemma invalid_json_text:
  \<open>json_dumps h (error_result ''Invalid JSON request'')
     = ''{"content": [{"type": "text", "text": "Invalid JSON request"}], "isError": true}''\<close>
  by (simp add: error_result_def text_item_def dumps_string_def escape_char_def code_def
      DQUOTE_def BACKSLASH_def LF_def CR_def)


lemma tool_descriptor_names:
  "map descriptor_name (map snd tools) =
     map (Some \<circ> JStr) [''text_transform'', ''calculate'', ''system_info'', ''file_operations'', ''current_time'']"
  by (simp add: tools_def descriptor_name_def descriptor_def)

section \<open>The claims\<close>

text \<open>
  The expression \<^verbatim>\<open>1.5\<close> has a period, which is none of the digits, whitespace,
  parentheses and operators; the pattern has the period in its class, so the
  expression is evaluated and the response is a success.
\<close>

theorem period_is_accepted:
  "CHR ''.'' \<in> set ''1.5'' \<and> \<not> listed_character (CHR ''.'')
   \<and> calculate sample_host (JObj [(''expression'', JStr ''1.5'')]) = Inr (text_result (JStr ''1.5 = 1.5''))
   \<and> \<not> is_error (text_result (JStr ''1.5 = 1.5''))"
proof -
  have "\<not> listed_character (CHR ''.'')"
    by (simp add: listed_character_def is_digit_def is_space_def code_def)
  moreover have "re_match_expression ''1.5''"
    by (simp add: re_match_expression_iff in_class_def is_digit_def code_def)
  moreover have "py_eval sample_host ''1.5'' = Inr ''1.5''"
    by (simp add: py_eval_def eval_integer_float sample_host_def)
  ultimately show ?thesis
    by (simp add: calculate_def dict_get_def is_error_text_result)
qed

text \<open>
  Claim C2, amended. When the expression is a string with a character that is neither a
  digit, whitespace, a parenthesis, one of the operators \<^verbatim>\<open>+ - * /\<close> nor the period,
  \<^verbatim>\<open>calculate\<close> returns the error response whose text is the \<^verbatim>\<open>Invalid expression\<close>
  message, with \<^verbatim>\<open>isError\<close> true, whatever the evaluator would make of it. A letter is
  such a character.
\<close>

theorem calculate_rejects:
  assumes "dict_get d ''expression'' (JStr []) = JStr e"
      and "(\<exists>c\<in>set e. \<not> listed_character c \<and> c \<noteq> CHR ''.'') \<or> (\<exists>c\<in>set e. is_letter c)"
  shows "calculate h (JObj d) = Inr (error_result invalid_expression)
         \<and> is_error (error_result invalid_expression)
         \<and> text_of (error_result invalid_expression) = Some (JStr invalid_expression)
         \<and> prefix ''Invalid expression'' invalid_expression"
proof -
  from assms(2) obtain c where "c \<in> set e" and "\<not> in_class c"
    using letter_not_in_class by (auto simp: in_class_listed)
  then have "\<not> list_all in_class e"
    by (auto simp: list_all_iff)
  then have "\<not> re_match_expression e"
    by (simp add: re_match_expression_iff)
  with assms(1) have "calculate h (JObj d) = Inr (error_result invalid_expression)"
    by (simp add: calculate_def)
  moreover have "prefix ''Invalid expression'' invalid_expression"
    by (simp add: invalid_expression_def)
  ultimately show ?thesis
    by (simp add: is_error_error_result text_of_error_result)
qed

theorem calculate_rejects_witness:
  "calculate sample_host (JObj [(''expression'', JStr ''2 + x'')]) = Inr (error_result invalid_expression)"
proof -
  have "is_letter (CHR ''x'')"
    by (simp add: is_letter_def is_upper_def is_lower_def code_def)
  then have "(\<exists>c\<in>set ''2 + x''. \<not> listed_character c \<and> c \<noteq> CHR ''.'') \<or> (\<exists>c\<in>set ''2 + x''. is_letter c)"
    by simp
  moreover have "dict_get [(''expression'', JStr ''2 + x'')] ''expression'' (JStr []) = JStr ''2 + x''"
    by (simp add: dict_get_def)
  ultimately show ?thesis
    using calculate_rejects [of "[(''expression'', JStr ''2 + x'')]" "''2 + x''" sample_host] by blast
qed

text \<open>
  Claim C3. A line that is not empty and that \<^verbatim>\<open>json.loads\<close> rejects with
  \<^verbatim>\<open>JSONDecodeError\<close> makes the loop print exactly one line, the serialisation of
  \<^verbatim>\<open>{"content": [{"type": "text", "text": "Invalid JSON request"}], "isError": true}\<close>;
  the world is untouched, since the dispatcher is not called, and the loop goes on with
  the lines that follow from that same world. The loop stops only at the end of the
  stream: lines that are not empty get one output line each.
\<close>

theorem invalid_json_line:
  assumes "line \<noteq> []" and "json_loads h (py_strip line) = Inl (JSONDecodeError m)"
  shows "run h w (line # rest)
           = (json_dumps h (JObj [(''content'', JArr [JObj [(''type'', JStr ''text''),
                                                           (''text'', JStr ''Invalid JSON request'')]]),
                                  (''isError'', JBool True)])
                # fst (run h w rest),
              snd (run h w rest))
         \<and> ((\<forall>l\<in>set rest. l \<noteq> []) \<longrightarrow> length (fst (run h w (line # rest))) = length (line # rest))"
proof -
  have "serve_line h w line = (json_dumps h (error_result ''Invalid JSON request''), w)"
    using assms(2) by (simp add: serve_line_def on_exception_def)
  then have "run h w (line # rest)
           = (json_dumps h (error_result ''Invalid JSON request'') # fst (run h w rest), snd (run h w rest))"
    using run_step [OF assms(1), of h w rest] by simp
  moreover have "(\<forall>l\<in>set rest. l \<noteq> []) \<longrightarrow> length (fst (run h w (line # rest))) = length (line # rest)"
    using assms(1) run_answers_every_line [of "line # rest" h w] by simp
  ultimately show ?thesis
    by (simp add: error_result_def text_item_def)
qed

theorem invalid_json_line_witness:
  "run sample_host sample_world [''{not json'' @ [LF], ''{not json'' @ [LF]]
     = ([json_dumps sample_host (error_result ''Invalid JSON request''),
         json_dumps sample_host (error_result ''Invalid JSON request'')], sample_world)"
proof -
  have strip: "py_strip (''{not json'' @ [LF]) = ''{not json''"
    by (simp add: py_strip_def is_space_def code_def LF_def)
  have loads: "json_loads sample_host ''{not json''
                 = Inl (JSONDecodeError ''Expecting value: line 1 column 1 (char 0)'')"
    by (simp add: sample_host_def sample_documents_def)
  have line: "''{not json'' @ [LF] \<noteq> []"
    by simp
  have "json_loads sample_host (py_strip (''{not json'' @ [LF]))
          = Inl (JSONDecodeError ''Expecting value: line 1 column 1 (char 0)'')"
    using strip loads by simp
  from invalid_json_line [OF line this, of sample_world "[''{not json'' @ [LF]]"]
       invalid_json_line [OF line this, of sample_world "[]"]
  show ?thesis
    by (simp add: error_result_def text_item_def)
qed

text \<open>
  Claim C4. \<^verbatim>\<open>calculate\<close> on the expression \<^verbatim>\<open>2 + 3 * 4\<close> returns the success response
  whose single text item is \<^verbatim>\<open>2 + 3 * 4 = 14\<close>. For all natural numbers written in
  decimal, a product binds tighter than a sum on either side of it, and differences and
  sums of one level are taken from left to right.
\<close>

theorem calculate_precedence:
  "calculate h (JObj [(''expression'', JStr ''2 + 3 * 4'')]) = Inr (text_result (JStr ''2 + 3 * 4 = 14''))
   \<and> \<not> is_error (text_result (JStr ''2 + 3 * 4 = 14''))
   \<and> content_of (text_result (JStr ''2 + 3 * 4 = 14'')) = Some [text_item (JStr ''2 + 3 * 4 = 14'')]
   \<and> py_eval h (str_nat a @ '' + '' @ str_nat b @ '' * '' @ str_nat c) = Inr (str_int (int a + int b * int c))
   \<and> py_eval h (str_nat a @ '' * '' @ str_nat b @ '' + '' @ str_nat c) = Inr (str_int (int a * int b + int c))
   \<and> py_eval h (str_nat a @ '' - '' @ str_nat b @ '' - '' @ str_nat c) = Inr (str_int ((int a - int b) - int c))
   \<and> py_eval h (str_nat a @ '' - '' @ str_nat b @ '' + '' @ str_nat c) = Inr (str_int ((int a - int b) + int c))"
  by (simp only: calculate_example precedence_and_associativity is_error_text_result
      content_of_text_result simp_thms)

theorem calculate_precedence_witness:
  "py_eval sample_host ''8 - 3 - 2'' = Inr ''3'' \<and> py_eval sample_host ''2 * 3 + 4'' = Inr ''10''"
  using calculate_precedence [of sample_host 8 3 2] calculate_precedence [of sample_host 2 3 4]
  by (simp add: str_nat.simps digit_char_def str_int_def)

text \<open>
  Claim C5. A request whose method is \<^verbatim>\<open>tools/list\<close> is answered with the dictionary
  \<^verbatim>\<open>{"tools": [...]}\<close>, which is not of the \<^verbatim>\<open>content\<close>/\<^verbatim>\<open>isError\<close> shape; the list has
  one descriptor for each of the five tools of the registry, and their names are
  distinct.
\<close>

theorem tools_list_response:
  assumes "dict_get request ''method'' JNull = JStr ''tools/list''"
  shows "handle_request h w (JObj request) = Inr (JObj [(''tools'', JArr (map snd tools))], w)
         \<and> \<not> uniform_response (JObj [(''tools'', JArr (map snd tools))])
         \<and> content_of (JObj [(''tools'', JArr (map snd tools))]) = None
         \<and> length (map snd tools) = length tools
         \<and> length (map snd tools) = 5
         \<and> distinct (map descriptor_name (map snd tools))
         \<and> list_all (\<lambda>d. descriptor_name d \<noteq> None) (map snd tools)"
proof -
  have "handle_request h w (JObj request) = Inr (JObj [(''tools'', JArr (map snd tools))], w)"
    using assms by (simp add: handle_request_def)
  moreover have "\<not> uniform_response (JObj [(''tools'', JArr (map snd tools))])"
    by (simp add: uniform_response_def)
  moreover have "content_of (JObj [(''tools'', JArr (map snd tools))]) = None"
    by (simp add: content_of_def)
  moreover have "length (map snd tools) = 5"
    by (simp add: tools_def)
  moreover have "distinct (map descriptor_name (map snd tools))"
    unfolding tool_descriptor_names by simp
  moreover have "list_all (\<lambda>d. descriptor_name d \<noteq> None) (map snd tools)"
    by (simp add: tools_def descriptor_name_def descriptor_def)
  ultimately show ?thesis by simp
qed

theorem tools_list_response_witness:
  "handle_request sample_host sample_world (JObj [(''method'', JStr ''tools/list''), (''params'', JInt 7)])
     = Inr (JObj [(''tools'', JArr (map snd tools))], sample_world)"
  using tools_list_response [of "[(''method'', JStr ''tools/list''), (''params'', JInt 7)]" sample_host sample_world]
  by (simp add: dict_get_def)

text \<open>
  Claim C6. \<^verbatim>\<open>current_time\<close> with the format \<^verbatim>\<open>custom\<close> and an empty (or absent)
  \<^verbatim>\<open>custom_format\<close> returns a success response, without \<^verbatim>\<open>isError\<close>, whose text says
  that a custom format string is required; so does the dispatch through
  \<^verbatim>\<open>call_tool\<close>.
\<close>

theorem custom_without_format:
  assumes "dict_get d ''format'' JNull = JStr ''custom''"
      and "dict_get d ''custom_format'' (JStr []) = JStr []"
  shows "current_time h w (JObj d)
           = Inr (text_result (JStr ''Current time: Custom format string required for custom format type''),
                  w\<lparr>ticks := Suc (ticks w)\<rparr>)
         \<and> \<not> is_error (text_result (JStr ''Current time: Custom format string required for custom format type''))
         \<and> call_tool h w (JStr ''current_time'') (JObj d)
           = (text_result (JStr ''Current time: Custom format string required for custom format type''),
                  w\<lparr>ticks := Suc (ticks w)\<rparr>)"
proof -
  from assms(1) have f: "dict_get d ''format'' (JStr ''iso'') = JStr ''custom''"
    by (auto simp: dict_get_def split: option.splits)
  have ct: "current_time h w (JObj d)
           = Inr (text_result (JStr ''Current time: Custom format string required for custom format type''),
                  w\<lparr>ticks := Suc (ticks w)\<rparr>)"
    using f assms(2) by (simp add: current_time_def read_clock_def time_result_def custom_time_def)
  then show ?thesis
    by (simp add: is_error_text_result call_tool_def)
qed

theorem custom_without_format_witness:
  "current_time sample_host sample_world (JObj [(''format'', JStr ''custom''), (''custom_format'', JStr [])])
     = Inr (text_result (JStr ''Current time: Custom format string required for custom format type''),
            sample_world\<lparr>ticks := Suc (ticks sample_world)\<rparr>)"
  using custom_without_format [of "[(''format'', JStr ''custom''), (''custom_format'', JStr [])]"
      sample_host sample_world]
  by (simp add: dict_get_def)

text \<open>
  Claim C8. On every text, \<^verbatim>\<open>text_transform\<close> with \<^verbatim>\<open>reverse\<close> applied to its own
  result gives the text back. On an ASCII text that lowering leaves unchanged,
  \<^verbatim>\<open>uppercase\<close> followed by \<^verbatim>\<open>lowercase\<close> gives the text back.
\<close>

theorem reverse_and_case_round_trips:
  "text_transform h (JObj [(''text'', JStr t), (''operation'', JStr ''reverse'')])
     = Inr (text_result (JStr (rev t)))
   \<and> text_transform h (JObj [(''text'', JStr (rev t)), (''operation'', JStr ''reverse'')])
     = Inr (text_result (JStr t))
   \<and> (list_all is_ascii t \<and> str_lower h t = t \<longrightarrow>
        text_transform h (JObj [(''text'', JStr t), (''operation'', JStr ''uppercase'')])
          = Inr (text_result (JStr (str_upper h t)))
        \<and> text_transform h (JObj [(''text'', JStr (str_upper h t)), (''operation'', JStr ''lowercase'')])
          = Inr (text_result (JStr t)))"
proof -
  have "text_transform h (JObj [(''text'', JStr s), (''operation'', JStr ''reverse'')])
          = Inr (text_result (JStr (rev s)))" for s
    by (simp add: text_transform_def transform_def dict_get_def)
  moreover have "text_transform h (JObj [(''text'', JStr s), (''operation'', JStr ''uppercase'')])
          = Inr (text_result (JStr (str_upper h s)))" for s
    by (simp add: text_transform_def transform_def dict_get_def)
  moreover have "text_transform h (JObj [(''text'', JStr s), (''operation'', JStr ''lowercase'')])
          = Inr (text_result (JStr (str_lower h s)))" for s
    by (simp add: text_transform_def transform_def dict_get_def)
  ultimately show ?thesis
    by (simp add: lower_upper_text)
qed

theorem reverse_and_case_round_trips_witness:
  "text_transform sample_host (JObj [(''text'', JStr ''abc''), (''operation'', JStr ''reverse'')])
     = Inr (text_result (JStr ''cba''))
   \<and> text_transform sample_host (JObj [(''text'', JStr ''cba''), (''operation'', JStr ''reverse'')])
     = Inr (text_result (JStr ''abc''))
   \<and> text_transform sample_host
       (JObj [(''text'', JStr (str_upper sample_host ''abc'')), (''operation'', JStr ''lowercase'')])
     = Inr (text_result (JStr ''abc''))"
proof -
  have "list_all is_ascii ''abc'' \<and> str_lower sample_host ''abc'' = ''abc''"
    by (simp add: str_lower_def is_ascii_def ascii_lower_def is_upper_def code_def)
  with reverse_and_case_round_trips [of sample_host "''abc''"] show ?thesis
    by simp
qed

text \<open>
  Claim C9. When the arguments of \<^verbatim>\<open>current_time\<close> have no \<^verbatim>\<open>format\<close> key, the format
  is \<^verbatim>\<open>iso\<close>: the response is a success whose text is \<^verbatim>\<open>Current time:\<close> and the ISO
  form of the clock's reading, also through \<^verbatim>\<open>call_tool\<close>, although the descriptor of
  the tool lists \<^verbatim>\<open>format\<close> as required.
\<close>

theorem format_defaults_to_iso:
  assumes "map_of d ''format'' = None"
  shows "current_time h w (JObj d)
           = Inr (text_result (JStr (''Current time: '' @ isoformat (clock h (ticks w)))),
                  w\<lparr>ticks := Suc (ticks w)\<rparr>)
         \<and> \<not> is_error (text_result (JStr (''Current time: '' @ isoformat (clock h (ticks w)))))
         \<and> call_tool h w (JStr ''current_time'') (JObj d)
           = (text_result (JStr (''Current time: '' @ isoformat (clock h (ticks w)))),
                  w\<lparr>ticks := Suc (ticks w)\<rparr>)
         \<and> map_option required_arguments (map_of tools ''current_time'') = Some (Some (JArr [JStr ''format'']))"
proof -
  from assms have f: "dict_get d ''format'' (JStr ''iso'') = JStr ''iso''"
    by (simp add: dict_get_def)
  have ct: "current_time h w (JObj d)
           = Inr (text_result (JStr (''Current time: '' @ isoformat (clock h (ticks w)))),
                  w\<lparr>ticks := Suc (ticks w)\<rparr>)"
    using f by (simp add: current_time_def read_clock_def time_result_def)
  have "map_option required_arguments (map_of tools ''current_time'') = Some (Some (JArr [JStr ''format'']))"
    by (simp add: tools_def required_arguments_def descriptor_def)
  with ct show ?thesis
    by (simp add: is_error_text_result call_tool_def)
qed

theorem format_defaults_to_iso_witness:
  "current_time sample_host sample_world (JObj [(''timezone'', JStr ''local'')])
     = Inr (text_result (JStr ''Current time: 2026-11-04T14:23:05.250000''),
            sample_world\<lparr>ticks := Suc (ticks sample_world)\<rparr>)"
  using format_defaults_to_iso [of "[(''timezone'', JStr ''local'')]" sample_host sample_world]
  by (simp add: sample_host_def sample_moment_def)

text \<open>
  Claim C10. A \<^verbatim>\<open>tools/call\<close> request without \<^verbatim>\<open>params\<close>, or whose \<^verbatim>\<open>params\<close>
  dictionary has no \<^verbatim>\<open>name\<close>, is answered by \<^verbatim>\<open>handle_request\<close> with the error response
  \<^verbatim>\<open>Unknown tool: None\<close>: nothing is raised, and the world is the one before, no tool
  having run.
\<close>

theorem missing_tool_name:
  assumes "dict_get request ''method'' JNull = JStr ''tools/call''"
      and "map_of request ''params'' = None
           \<or> (\<exists>params. map_of request ''params'' = Some (JObj params) \<and> map_of params ''name'' = None)"
  shows "handle_request h w (JObj request) = Inr (error_result ''Unknown tool: None'', w)
         \<and> is_error (error_result ''Unknown tool: None'')
         \<and> text_of (error_result ''Unknown tool: None'') = Some (JStr ''Unknown tool: None'')"
proof -
  from assms(2) obtain params where p: "dict_get request ''params'' (JObj []) = JObj params"
    and n: "map_of params ''name'' = None"
    by (auto simp: dict_get_def)
  have "handle_request h w (JObj request) = Inr (error_result ''Unknown tool: None'', w)"
    using assms(1) p n by (simp add: handle_request_def dict_get_def)
  then show ?thesis
    by (simp add: is_error_error_result text_of_error_result)
qed

theorem missing_tool_name_witness:
  "handle_request sample_host sample_world (JObj [(''method'', JStr ''tools/call'')])
     = Inr (error_result ''Unknown tool: None'', sample_world)
   \<and> handle_request sample_host sample_world
       (JObj [(''method'', JStr ''tools/call''), (''params'', JObj [(''arguments'', JObj [])])])
     = Inr (error_result ''Unknown tool: None'', sample_world)"
  using missing_tool_name [of "[(''method'', JStr ''tools/call'')]" sample_host sample_world]
        missing_tool_name [of "[(''method'', JStr ''tools/call''), (''params'', JObj [(''arguments'', JObj [])])]"
          sample_host sample_world]
  by (simp add: dict_get_def)

subsection \<open>Files\<close>

lemma universal_newlines_plain: "x \<noteq> CR \<Longrightarrow> universal_newlines (x # xs) = x # universal_newlines xs"
  by (cases xs) simp_all

lemma universal_newlines_CR_LF: "universal_newlines (CR # LF # xs) = LF # universal_newlines xs"
  by simp

lemma universal_newlines_without_CR: "CR \<notin> set c \<Longrightarrow> universal_newlines c = c"
  by (induction c) (simp_all add: universal_newlines_plain [OF not_sym])

lemma LF_not_CR: "LF \<noteq> CR"
  by (simp add: LF_def CR_def)

lemma read_back:
  assumes "linesep h = [LF] \<or> linesep h = [CR, LF]" and "CR \<notin> set c"
  shows "universal_newlines (to_disk h c) = c"
  using assms
proof (elim disjE)
  assume "linesep h = [LF]"
  then have "to_disk h c = c"
    by (induction c) (simp_all add: to_disk_def)
  with assms(2) show ?thesis
    by (simp add: universal_newlines_without_CR)
next
  assume sep: "linesep h = [CR, LF]"
  from assms(2) show ?thesis
  proof (induction c)
    case Nil
    then show ?case by (simp add: to_disk_def)
  next
    case (Cons x xs)
    then have ih: "universal_newlines (to_disk h xs) = xs" by simp
    show ?case
    proof (cases "x = LF")
      case True
      then have "to_disk h (x # xs) = CR # LF # to_disk h xs"
        by (simp add: to_disk_def sep)
      with ih True show ?thesis by (simp only: universal_newlines_CR_LF)
    next
      case False
      then have "to_disk h (x # xs) = x # to_disk h xs"
        by (simp add: to_disk_def)
      moreover from Cons.prems have "x \<noteq> CR" by auto
      ultimately show ?thesis using ih
        by (simp add: universal_newlines_plain)
    qed
  qed
qed

lemma write_success:
  assumes "\<not> is_error (file_result (fst (write_file h w path (JStr content))))"
      and "fs w path \<noteq> Some OtherNode"
  shows "write_file h w path (JStr content)
           = (Inr (''Successfully wrote to '' @ path),
              w\<lparr>fs := (fs w)(path \<mapsto> RegFile (to_disk h content))\<rparr>)"
  using assms
  by (auto simp: write_file_def file_result_def is_error_def error_result_def
           split: option.splits node.splits)

text \<open>
  Two calls where a write followed by a read of the same path does not give the content
  back. The path \<^verbatim>\<open>/tmp\<close> is a directory: the write is answered with an error and the
  read with \<^verbatim>\<open>File /tmp not found\<close>. The content \<^verbatim>\<open>a\rb\<close> is written to a fresh path
  with success, and read back as \<^verbatim>\<open>a\nb\<close>, since reading in text mode turns a
  carriage return into a newline.
\<close>

theorem write_then_read_fails:
  "file_operations sample_host sample_world
     (JObj [(''operation'', JStr ''write''), (''path'', JStr ''/tmp''), (''content'', JStr ''hello'')])
     = Inr (error_result (''Error with file operation: [Errno 21] Is a directory: '' @ [QUOTE] @ ''/tmp'' @ [QUOTE]),
            sample_world)
   \<and> file_operations sample_host sample_world
        (JObj [(''operation'', JStr ''read''), (''path'', JStr ''/tmp'')])
     = Inr (text_result (JStr ''File /tmp not found''), sample_world)
   \<and> \<not> sublist ''hello'' ''File /tmp not found''
   \<and> file_operations sample_host sample_world
        (JObj [(''operation'', JStr ''write''), (''path'', JStr ''/tmp/a.txt''),
               (''content'', JStr [CHR ''a'', CR, CHR ''b''])])
     = Inr (text_result (JStr ''Successfully wrote to /tmp/a.txt''),
            sample_world\<lparr>fs := (fs sample_world)(''/tmp/a.txt'' \<mapsto> RegFile [CHR ''a'', CR, CHR ''b''])\<rparr>)
   \<and> file_operations sample_host
        (sample_world\<lparr>fs := (fs sample_world)(''/tmp/a.txt'' \<mapsto> RegFile [CHR ''a'', CR, CHR ''b''])\<rparr>)
        (JObj [(''operation'', JStr ''read''), (''path'', JStr ''/tmp/a.txt'')])
     = Inr (text_result (JStr (''Contents of /tmp/a.txt:'' @ [LF, CHR ''a'', LF, CHR ''b''])),
            sample_world\<lparr>fs := (fs sample_world)(''/tmp/a.txt'' \<mapsto> RegFile [CHR ''a'', CR, CHR ''b''])\<rparr>)
   \<and> \<not> sublist [CHR ''a'', CR, CHR ''b''] (''Contents of /tmp/a.txt:'' @ [LF, CHR ''a'', LF, CHR ''b''])"
proof -
  have wd: "write_file sample_host sample_world ''/tmp'' (JStr ''hello'')
              = (Inl (''[Errno 21] Is a directory: '' @ [QUOTE] @ ''/tmp'' @ [QUOTE]), sample_world)"
    by (simp add: write_file_def sample_host_def sample_world_def)
  have a: "file_operations sample_host sample_world
     (JObj [(''operation'', JStr ''write''), (''path'', JStr ''/tmp''), (''content'', JStr ''hello'')])
     = Inr (error_result (''Error with file operation: [Errno 21] Is a directory: '' @ [QUOTE] @ ''/tmp'' @ [QUOTE]),
            sample_world)"
    by (simp only: file_operations_def py_get.simps dict_get_def) (simp add: wd file_result_def)
  have rd: "read_file sample_host sample_world ''/tmp'' = Inr ''File /tmp not found''"
    by (simp add: read_file_def sample_world_def)
  have b: "file_operations sample_host sample_world
        (JObj [(''operation'', JStr ''read''), (''path'', JStr ''/tmp'')])
     = Inr (text_result (JStr ''File /tmp not found''), sample_world)"
    by (simp only: file_operations_def py_get.simps dict_get_def) (simp add: rd file_result_def)
  have c: "\<not> sublist ''hello'' ''File /tmp not found''"
    by (simp add: sublist_Cons_right)
  have wf: "write_file sample_host sample_world ''/tmp/a.txt'' (JStr [CHR ''a'', CR, CHR ''b''])
              = (Inr ''Successfully wrote to /tmp/a.txt'',
                 sample_world\<lparr>fs := (fs sample_world)(''/tmp/a.txt'' \<mapsto> RegFile [CHR ''a'', CR, CHR ''b''])\<rparr>)"
    by (simp add: write_file_def sample_host_def sample_world_def to_disk_def CR_def LF_def)
  have d: "file_operations sample_host sample_world
        (JObj [(''operation'', JStr ''write''), (''path'', JStr ''/tmp/a.txt''),
               (''content'', JStr [CHR ''a'', CR, CHR ''b''])])
     = Inr (text_result (JStr ''Successfully wrote to /tmp/a.txt''),
            sample_world\<lparr>fs := (fs sample_world)(''/tmp/a.txt'' \<mapsto> RegFile [CHR ''a'', CR, CHR ''b''])\<rparr>)"
    by (simp only: file_operations_def py_get.simps dict_get_def) (simp add: wf file_result_def)
  have rf: "read_file sample_host
        (sample_world\<lparr>fs := (fs sample_world)(''/tmp/a.txt'' \<mapsto> RegFile [CHR ''a'', CR, CHR ''b''])\<rparr>)
        ''/tmp/a.txt'' = Inr (''Contents of /tmp/a.txt:'' @ [LF, CHR ''a'', LF, CHR ''b''])"
    by (simp add: read_file_def sample_host_def CR_def LF_def)
  have e: "file_operations sample_host
        (sample_world\<lparr>fs := (fs sample_world)(''/tmp/a.txt'' \<mapsto> RegFile [CHR ''a'', CR, CHR ''b''])\<rparr>)
        (JObj [(''operation'', JStr ''read''), (''path'', JStr ''/tmp/a.txt'')])
     = Inr (text_result (JStr (''Contents of /tmp/a.txt:'' @ [LF, CHR ''a'', LF, CHR ''b''])),
            sample_world\<lparr>fs := (fs sample_world)(''/tmp/a.txt'' \<mapsto> RegFile [CHR ''a'', CR, CHR ''b''])\<rparr>)"
    by (simp only: file_operations_def py_get.simps dict_get_def) (simp add: rf file_result_def)
  have f: "\<not> sublist [CHR ''a'', CR, CHR ''b''] (''Contents of /tmp/a.txt:'' @ [LF, CHR ''a'', LF, CHR ''b''])"
    by (simp add: sublist_Cons_right CR_def LF_def)
  from a b c d e f show ?thesis
    by (intro conjI)
qed

text \<open>
  Claim C7, amended. For every path and string content: when the write is answered with
  success, the path is not a device or pipe, the system does not refuse to open the
  file for reading, and the content has no carriage return, then the read of the same
  path in the world the write left is answered with success, and its text is
  \<^verbatim>\<open>Contents of\<close>, the path, a colon, a newline and the content; so it contains the
  content.
\<close>

theorem write_then_read:
  assumes "file_operations h w (JObj [(''operation'', JStr ''write''), (''path'', JStr path),
                                      (''content'', JStr content)]) = Inr (written, w')"
      and "\<not> is_error written"
      and "fs w path \<noteq> Some OtherNode"
      and "os_refuses h ''open_r'' path = None"
      and "CR \<notin> set content"
      and "linesep h = [LF] \<or> linesep h = [CR, LF]"
  shows "written = text_result (JStr (''Successfully wrote to '' @ path))
         \<and> file_operations h w' (JObj [(''operation'', JStr ''read''), (''path'', JStr path)])
             = Inr (text_result (JStr (''Contents of '' @ path @ '':'' @ [LF] @ content)), w')
         \<and> \<not> is_error (text_result (JStr (''Contents of '' @ path @ '':'' @ [LF] @ content)))
         \<and> sublist content (''Contents of '' @ path @ '':'' @ [LF] @ content)"
proof -
  from assms(1) have wr: "(file_result (fst (write_file h w path (JStr content))),
                           snd (write_file h w path (JStr content))) = (written, w')"
    by (simp add: file_operations_def dict_get_def case_prod_beta)
  with assms(2) have "\<not> is_error (file_result (fst (write_file h w path (JStr content))))"
    by simp
  from write_success [OF this assms(3)] wr
  have written: "written = text_result (JStr (''Successfully wrote to '' @ path))"
    and w': "w' = w\<lparr>fs := (fs w)(path \<mapsto> RegFile (to_disk h content))\<rparr>"
    by (simp_all add: file_result_def)
  have "read_file h w' path = Inr (''Contents of '' @ path @ '':'' @ [LF] @ content)"
    using assms(4) read_back [OF assms(6) assms(5)] by (simp add: read_file_def w')
  then have "file_operations h w' (JObj [(''operation'', JStr ''read''), (''path'', JStr path)])
             = Inr (text_result (JStr (''Contents of '' @ path @ '':'' @ [LF] @ content)), w')"
    by (simp add: file_operations_def dict_get_def file_result_def)
  moreover have "sublist content ((''Contents of '' @ path @ '':'' @ [LF]) @ content @ [])"
    by (rule sublist_appendI)
  then have "sublist content (''Contents of '' @ path @ '':'' @ [LF] @ content)"
    by simp
  ultimately show ?thesis
    using written by (simp add: is_error_def text_result_def)
qed

theorem write_then_read_witness:
  "file_operations sample_host
     (sample_world\<lparr>fs := (fs sample_world)(''/tmp/a.txt'' \<mapsto> RegFile (to_disk sample_host ''hello''))\<rparr>)
     (JObj [(''operation'', JStr ''read''), (''path'', JStr ''/tmp/a.txt'')])
   = Inr (text_result (JStr (''Contents of /tmp/a.txt:'' @ [LF] @ ''hello'')),
          sample_world\<lparr>fs := (fs sample_world)(''/tmp/a.txt'' \<mapsto> RegFile (to_disk sample_host ''hello''))\<rparr>)"
proof -
  have wf: "write_file sample_host sample_world ''/tmp/a.txt'' (JStr ''hello'')
              = (Inr (''Successfully wrote to '' @ ''/tmp/a.txt''),
                 sample_world\<lparr>fs := (fs sample_world)(''/tmp/a.txt'' \<mapsto> RegFile (to_disk sample_host ''hello''))\<rparr>)"
    by (simp add: write_file_def sample_host_def sample_world_def)
  have 1: "file_operations sample_host sample_world
             (JObj [(''operation'', JStr ''write''), (''path'', JStr ''/tmp/a.txt''), (''content'', JStr ''hello'')])
           = Inr (text_result (JStr (''Successfully wrote to '' @ ''/tmp/a.txt'')),
                  sample_world\<lparr>fs := (fs sample_world)(''/tmp/a.txt'' \<mapsto> RegFile (to_disk sample_host ''hello''))\<rparr>)"
    by (simp only: file_operations_def py_get.simps dict_get_def) (simp add: wf file_result_def)
  have 2: "\<not> is_error (text_result (JStr (''Successfully wrote to '' @ ''/tmp/a.txt'')))"
    by (simp add: is_error_def text_result_def)
  have 3: "fs sample_world ''/tmp/a.txt'' \<noteq> Some OtherNode"
    by (simp add: sample_world_def)
  have 4: "os_refuses sample_host ''open_r'' ''/tmp/a.txt'' = None"
    by (simp add: sample_host_def)
  have 5: "CR \<notin> set ''hello''"
    by (simp add: CR_def)
  have 6: "linesep sample_host = [LF] \<or> linesep sample_host = [CR, LF]"
    by (simp add: sample_host_def)
  from write_then_read [OF 1 2 3 4 5 6] show ?thesis
    by simp
qed

subsection \<open>The dispatcher\<close>




































lemma unanswerable_raises:
  assumes "\<not> answerable request"
  shows "\<exists>e. handle_request h w (JObj request) = Inl e"
proof -
  from assms have m: "dict_get request ''method'' JNull = JStr ''tools/call''"
    by (simp add: answerable_def)
  show ?thesis
  proof (cases "dict_get request ''params'' (JObj [])")
    case (JObj params)
    with assms m have "(\<exists>xs. dict_get params ''name'' JNull = JArr xs)
        \<or> (\<exists>d. dict_get params ''name'' JNull = JObj d)"
      by (auto simp: answerable_def split: json.splits)
    with m JObj show ?thesis
      by (auto simp: handle_request_def)
  qed (simp_all add: handle_request_def m)
qed




end
